theory Spec2Isabelle
  imports Complex_Main
begin

section \<open>Numbers, points and flattened point arrays\<close>

text \<open>
  The drawing tools of \<^verbatim>\<open>tools.ts\<close> (class \<^verbatim>\<open>DrawingTools\<close>) compute on JavaScript
  numbers. They are modelled as \<^typ>\<open>real\<close>; signed zeros and the special values are
  outside the model. Where the source can divide by zero, the case is written out with
  the result the comparison has in JavaScript (every comparison with \<^verbatim>\<open>NaN\<close> is false,
  and so is \<^verbatim>\<open>Infinity <= c\<close> for a number \<open>c\<close>). The geometry is computed exactly: what
  is proved about it are comparisons that rounding does not decide. The dimming and
  restoring of opacities by the lasso selection is computed with the rounding of the
  source, since there the question is whether a product divided again is the same number.

  A stroke stores its points flattened, \<^verbatim>\<open>[x0, y0, x1, y1, ...]\<close>. The arrays are only
  ever built from \<^verbatim>\<open>[pos.x, pos.y]\<close> and \<^verbatim>\<open>concat([pos.x, pos.y])\<close>, so their length is
  even; at an odd length the source reads \<^verbatim>\<open>undefined\<close>, which the model leaves
  unspecified.
\<close>

type_synonym point = "real \<times> real"

text \<open>
  The loop \<^verbatim>\<open>for (i = 0; i < points.length; i += 2) { xs.push(points[i]); ys.push(points[i + 1]); }\<close>
\<close>

fun xs_of :: "real list \<Rightarrow> real list" where
  "xs_of [] = []"
| "xs_of [x] = [x]"
| "xs_of (x # y # rest) = x # xs_of rest"

fun ys_of :: "real list \<Rightarrow> real list" where
  "ys_of [] = []"
| "ys_of (x # y # rest) = y # ys_of rest"

text \<open>
  \<^verbatim>\<open>Math.min(...xs)\<close> and \<^verbatim>\<open>Math.max(...xs)\<close>. Every call in the source is behind a length
  guard that makes the array non-empty; on an empty array (\<^verbatim>\<open>Infinity\<close>, \<^verbatim>\<open>-Infinity\<close>)
  the model is unspecified.
\<close>

fun Math_min :: "real list \<Rightarrow> real" where
  "Math_min (x # xs) = fold min xs x"

fun Math_max :: "real list \<Rightarrow> real" where
  "Math_max (x # xs) = fold max xs x"

text \<open>
  \<^verbatim>\<open>Math.atan2(y, x)\<close>: the bearing of \<open>(x, y)\<close>, in \<open>(-\<pi>, \<pi>]\<close>.
\<close>

definition Math_atan2 :: "real \<Rightarrow> real \<Rightarrow> real" where
  "Math_atan2 y x =
     (if 0 < x then arctan (y / x)
      else if x < 0 then (if 0 \<le> y then arctan (y / x) + pi else arctan (y / x) - pi)
      else if 0 < y then pi / 2
      else if y < 0 then - (pi / 2)
      else 0)"

text \<open>
  JavaScript numbers are IEEE 754 doubles: 53 significant bits, and the result of
  \<^verbatim>\<open>*\<close> and \<^verbatim>\<open>/\<close> is the exact result rounded to the nearest double, ties to the even
  significand. \<open>double x\<close> is that rounding of a real \<open>x\<close> (for the normal range, which
  holds every opacity the tools meet: no overflow, no subnormals): with
  \<open>2\<^sup>e \<le> |x| < 2\<^sup>e\<^sup>+\<^sup>1\<close> the doubles around \<open>x\<close> are the multiples of \<open>2\<^sup>e\<^sup>-\<^sup>5\<^sup>2\<close>. A decimal
  literal such as \<^verbatim>\<open>0.8\<close> is the double nearest to it.
\<close>

definition roundTiesToEven :: "real \<Rightarrow> int" where
  "roundTiesToEven x =
     (let f = \<lfloor>x\<rfloor>
      in if x - of_int f < 1 / 2 then f
         else if 1 / 2 < x - of_int f then f + 1
         else if even f then f else f + 1)"

definition double :: "real \<Rightarrow> real" where
  "double x =
     (if x = 0 then 0
      else
        let e = \<lfloor>log 2 \<bar>x\<bar>\<rfloor>;
            u = 2 powr (of_int e - 52)
        in u * of_int (roundTiesToEven (x / u)))"

definition times64 :: "real \<Rightarrow> real \<Rightarrow> real" where
  "times64 a b = double (a * b)"

definition divide64 :: "real \<Rightarrow> real \<Rightarrow> real" where
  "divide64 a b = double (a / b)"

section \<open>Geometry utilities\<close>

definition getAngle :: "point \<Rightarrow> point \<Rightarrow> point \<Rightarrow> real" where
  "getAngle p1 p2 p3 =
     (let a = Math_atan2 (snd p1 - snd p2) (fst p1 - fst p2);
          b = Math_atan2 (snd p3 - snd p2) (fst p3 - fst p2)
      in \<bar>a - b\<bar> * (180 / pi))"

definition pointToSegmentDistance ::
  "real \<Rightarrow> real \<Rightarrow> real \<Rightarrow> real \<Rightarrow> real \<Rightarrow> real \<Rightarrow> real" where
  "pointToSegmentDistance px py x1 y1 x2 y2 =
     (let dx = x2 - x1;
          dy = y2 - y1;
          lengthSquared = dx * dx + dy * dy
      in if lengthSquared = 0
         then sqrt ((px - x1) * (px - x1) + (py - y1) * (py - y1))
         else
           let t = ((px - x1) * dx + (py - y1) * dy) / lengthSquared;
               t = max 0 (min 1 t);
               nearestX = x1 + t * dx;
               nearestY = y1 + t * dy
           in sqrt ((px - nearestX) * (px - nearestX) + (py - nearestY) * (py - nearestY)))"

section \<open>Corner detector\<close>

text \<open>
  A corner candidate: \<^verbatim>\<open>{ point: {x, y}, angle }\<close>.
\<close>

type_synonym candidate = "point \<times> real"

text \<open>
  The scan of \<^verbatim>\<open>findSignificantCorners\<close>:
  \<^verbatim>\<open>for (let i = step * 2; i < points.length - step * 2 - 1; i += 2)\<close>.
  The indices \<open>prevIdx\<close>, \<open>i\<close>, \<open>nextIdx\<close> and their successors are inside the array
  whenever the loop condition holds.
\<close>

function collectCandidates :: "real list \<Rightarrow> nat \<Rightarrow> nat \<Rightarrow> candidate list \<Rightarrow> candidate list" where
  "collectCandidates points step i candidates =
     (if int i < int (length points) - int step * 2 - 1
      then
        let prevIdx = nat (max 0 (int i - int step * 2));
            nextIdx = nat (min (int (length points) - 2) (int i + int step * 2));
            prev = (points ! prevIdx, points ! (prevIdx + 1));
            curr = (points ! i, points ! (i + 1));
            next = (points ! nextIdx, points ! (nextIdx + 1));
            angle = getAngle prev curr next
        in collectCandidates points step (i + 2)
             (if angle < 180 - 25 \<and> angle > 15 then candidates @ [(curr, angle)] else candidates)
      else candidates)"
  by pat_completeness auto
termination
  by (relation "measure (\<lambda>(points, step, i, candidates). length points - i)") auto

declare collectCandidates.simps [simp del]

text \<open>
  The inner loop over the corners accepted so far: is one of them closer than \<open>minDistance\<close>?
\<close>

definition tooClose :: "real \<Rightarrow> point list \<Rightarrow> point \<Rightarrow> bool" where
  "tooClose minDistance corners p =
     list_ex (\<lambda>corner. sqrt ((fst p - fst corner)\<^sup>2 + (snd p - snd corner)\<^sup>2) < minDistance) corners"

text \<open>
  The greedy pass over the candidates, sharpest first.
\<close>

fun pickCorners :: "real \<Rightarrow> candidate list \<Rightarrow> point list \<Rightarrow> point list" where
  "pickCorners minDistance [] corners = corners"
| "pickCorners minDistance (c # cs) corners =
     pickCorners minDistance cs
       (if tooClose minDistance corners (fst c) then corners else corners @ [fst c])"

text \<open>
  \<^verbatim>\<open>candidates.sort((a, b) => a.angle - b.angle)\<close> is a stable sort by angle.
\<close>

definition findSignificantCorners :: "real list \<Rightarrow> real \<Rightarrow> real \<Rightarrow> point list" where
  "findSignificantCorners points width height =
     (let minDistance = min width height * 0.15
      in if length points < 12 then []
         else
           let step = max 4 (length points div 40);
               candidates = collectCandidates points step (step * 2) [];
               sorted = sort_key snd candidates
           in pickCorners minDistance sorted [])"

section \<open>Shape classifier\<close>

datatype ShapeType = circle | oval | rectangle | triangle | line

text \<open>
  \<^verbatim>\<open>analyzeStrokeForShape\<close>. In the last step \<^verbatim>\<open>Math.max(w, h) / Math.min(w, h)\<close> divides by
  zero when the smaller side is 0; the larger side is then 0 too (otherwise the line test
  has already returned), the quotient is \<^verbatim>\<open>NaN\<close>, and \<^verbatim>\<open>NaN < 1.3\<close> is false.
\<close>

definition analyzeStrokeForShape :: "real list \<Rightarrow> ShapeType option" where
  "analyzeStrokeForShape points =
     (if length points < 4 then None
      else
        let xs = xs_of points;
            ys = ys_of points;
            minX = Math_min xs;
            maxX = Math_max xs;
            minY = Math_min ys;
            maxY = Math_max ys;
            width = maxX - minX;
            height = maxY - minY
        in if width > height * 3.5 \<or> height > width * 3.5 then Some line
           else
             let corners = findSignificantCorners points width height
             in if length corners = 3 then Some triangle
                else if length corners \<ge> 4 then Some rectangle
                else if length corners = 2 \<and>
                        sqrt ((last xs - hd xs)\<^sup>2 + (last ys - hd ys)\<^sup>2) < max width height * 0.25
                then Some triangle
                else if min width height = 0 then Some oval
                else if max width height / min width height < 1.3 then Some circle
                else Some oval)"

section \<open>Konva objects, the layer and the state of \<^verbatim>\<open>DrawingTools\<close>\<close>

text \<open>
  A Konva node is its class and its attributes. Only the attributes that the tools read or
  write are kept (the rendering attributes \<^verbatim>\<open>lineCap\<close>, \<^verbatim>\<open>tension\<close>, \<^verbatim>\<open>dash\<close>, ... are
  left out); an attribute a class does not have is 0 or empty. For a text node \<open>width\<close>
  and \<open>height\<close> stand for its measured size.
\<close>

datatype className = Konva_Line | Konva_Circle | Konva_Ellipse | Konva_Rect | Konva_Text

record node =
  className :: className
  name :: string
  attr_x :: real
  attr_y :: real
  points :: "real list"
  closed :: bool
  radius :: real
  radiusX :: real
  radiusY :: real
  width :: real
  height :: real
  stroke :: string
  strokeWidth :: real
  opacity :: real

text \<open>
  A node with Konva's defaults for what a constructor call leaves out
  (position 0, opacity 1, no name, no points).
\<close>

definition new_node :: "className \<Rightarrow> node" where
  "new_node c =
     \<lparr>className = c, name = [], attr_x = 0, attr_y = 0, points = [], closed = False,
      radius = 0, radiusX = 0, radiusY = 0, width = 0, height = 0,
      stroke = [], strokeWidth = 2, opacity = 1\<rparr>"

datatype ToolType = Tool_hand | Tool_pen | Tool_highlighter | Tool_eraser | Tool_text | Tool_select

record ToolSettings =
  pen_color :: string
  pen_thickness :: real
  pen_opacity :: real
  highlighter_color :: string
  highlighter_thickness :: real
  highlighter_opacity :: real
  eraser_thickness :: real

record Bounds =
  minX :: real
  minY :: real
  maxX :: real
  maxY :: real

text \<open>
  The fields of \<^verbatim>\<open>DrawingTools\<close>. Objects are shared by reference (the live stroke is both
  \<^verbatim>\<open>currentLine\<close> and a child of the layer), so they live in a store \<open>objects\<close> and the
  fields hold references; \<open>layer\<close> is the list of the layer's children, in order.
  \<open>contentChanges\<close> counts the calls of the callback \<^verbatim>\<open>onContentChange\<close>. The last three
  fields are the host's: the handles of the timeouts that are armed, the next handle
  \<^verbatim>\<open>setTimeout\<close> returns and the next handle \<^verbatim>\<open>requestAnimationFrame\<close> returns
  (handles are positive, hence truthy).
\<close>

record DrawingTools =
  objects :: "nat \<Rightarrow> node option"
  nextRef :: nat
  layer :: "nat list"
  settings :: ToolSettings
  currentTool :: ToolType
  isDrawing :: bool
  currentLine :: "nat option"
  currentShape :: "nat option"
  shapeStartTime :: nat
  shapeStartPoints :: "real list"
  contentChanges :: nat
  lastEraserPos :: "point option"
  eraserTrail :: "nat option"
  markedForDeletion :: "nat list"
  originalOpacities :: "(nat \<times> real) list"
  lastMovePos :: "point option"
  lastMoveTime :: nat
  shapeHoldTimer :: "nat option"
  isInShapeMode :: bool
  detectedShapeType :: "ShapeType option"
  shapeAnchor :: "point option"
  shapeBounds :: "Bounds option"
  lassoLine :: "nat option"
  lassoPoints :: "real list"
  selectedShapes :: "nat list"
  isDraggingSelection :: bool
  dragStartPos :: "point option"
  lassoPath :: "nat option"
  marchingAntsAnimationId :: "nat option"
  selectionCenter :: point
  timeouts :: "nat list"
  nextTimeout :: nat
  nextAnimationFrame :: nat

text \<open>
  \<^verbatim>\<open>new Konva.X({...})\<close> followed by \<^verbatim>\<open>this.layer.add(...)\<close>: the object gets a fresh
  reference and becomes the last child of the layer.
\<close>

definition layer_add :: "node \<Rightarrow> DrawingTools \<Rightarrow> nat \<times> DrawingTools" where
  "layer_add n s =
     (nextRef s,
      s\<lparr>objects := (objects s)(nextRef s \<mapsto> n), nextRef := nextRef s + 1,
        layer := layer s @ [nextRef s]\<rparr>)"

text \<open>
  \<^verbatim>\<open>node.destroy()\<close> takes the node out of the layer; references to it stay usable.
\<close>

definition destroy :: "nat \<Rightarrow> DrawingTools \<Rightarrow> DrawingTools" where
  "destroy r s = s\<lparr>layer := removeAll r (layer s)\<rparr>"

text \<open>
  A setter call \<^verbatim>\<open>node.attr(v)\<close> on the object behind a reference.
\<close>

definition update_node :: "nat \<Rightarrow> (node \<Rightarrow> node) \<Rightarrow> DrawingTools \<Rightarrow> DrawingTools" where
  "update_node r f s =
     (case objects s r of
        None \<Rightarrow> s
      | Some n \<Rightarrow> s\<lparr>objects := (objects s)(r \<mapsto> f n)\<rparr>)"

text \<open>
  The stage as the handlers see it: the raw pointer position, if there is one, and the
  (non-zero, uniform) scale.
\<close>

record Stage =
  pointerPosition :: "point option"
  scaleX :: real

definition getScaledPointerPosition :: "Stage \<Rightarrow> point option" where
  "getScaledPointerPosition stage =
     (case pointerPosition stage of
        None \<Rightarrow> None
      | Some pos \<Rightarrow> Some (fst pos / scaleX stage, snd pos / scaleX stage))"

section \<open>Erase hit tests\<close>

text \<open>
  \<^verbatim>\<open>lineIntersectsEraser\<close>: the loop \<^verbatim>\<open>for (i = 0; i < points.length - 2; i += 2)\<close> over the
  segments of the polyline, as a recursion on the flattened array. (At an odd length the
  last iteration of the source compares with \<^verbatim>\<open>NaN\<close> and is false, as here.)
\<close>

fun segmentsIntersectEraser :: "real list \<Rightarrow> point \<Rightarrow> real \<Rightarrow> bool" where
  "segmentsIntersectEraser (x1 # y1 # x2 # y2 # rest) eraserPos threshold =
     (if pointToSegmentDistance (fst eraserPos) (snd eraserPos) x1 y1 x2 y2 \<le> threshold
      then True
      else segmentsIntersectEraser (x2 # y2 # rest) eraserPos threshold)"
| "segmentsIntersectEraser _ eraserPos threshold = False"

definition lineIntersectsEraser :: "node \<Rightarrow> point \<Rightarrow> real \<Rightarrow> bool" where
  "lineIntersectsEraser l eraserPos r =
     segmentsIntersectEraser (points l) eraserPos (r + strokeWidth l / 2)"

definition circleIntersectsEraser :: "node \<Rightarrow> point \<Rightarrow> real \<Rightarrow> bool" where
  "circleIntersectsEraser c eraserPos eraserRadius =
     (let cx = attr_x c;
          cy = attr_y c;
          r = radius c;
          sw = strokeWidth c / 2;
          dist = sqrt ((fst eraserPos - cx)\<^sup>2 + (snd eraserPos - cy)\<^sup>2)
      in \<bar>dist - r\<bar> \<le> eraserRadius + sw)"

text \<open>
  \<^verbatim>\<open>ellipseIntersectsEraser\<close> divides by the radii. With a radius 0 the source computes
  with \<^verbatim>\<open>Infinity\<close> or \<^verbatim>\<open>NaN\<close>: a \<^verbatim>\<open>NaN\<close> (from \<open>0 / 0\<close> or \<open>Infinity * 0\<close>) makes the
  comparison false, and \<^verbatim>\<open>Infinity * avgRadius <= t\<close> holds only for a negative
  \<open>avgRadius\<close>.
\<close>

definition ellipseIntersectsEraser :: "node \<Rightarrow> point \<Rightarrow> real \<Rightarrow> bool" where
  "ellipseIntersectsEraser e eraserPos eraserRadius =
     (let cx = attr_x e;
          cy = attr_y e;
          rx = radiusX e;
          ry = radiusY e;
          sw = strokeWidth e / 2;
          avgRadius = (rx + ry) / 2
      in if rx = 0 \<or> ry = 0
         then \<not> (rx = 0 \<and> fst eraserPos = cx) \<and> \<not> (ry = 0 \<and> snd eraserPos = cy) \<and> avgRadius < 0
         else
           let nx = (fst eraserPos - cx) / rx;
               ny = (snd eraserPos - cy) / ry;
               normalizedDist = sqrt (nx * nx + ny * ny)
           in \<bar>normalizedDist - 1\<bar> * avgRadius \<le> eraserRadius + sw)"

definition rectIntersectsEraser :: "node \<Rightarrow> point \<Rightarrow> real \<Rightarrow> bool" where
  "rectIntersectsEraser rect eraserPos eraserRadius =
     (let x = attr_x rect;
          y = attr_y rect;
          w = width rect;
          h = height rect;
          sw = strokeWidth rect / 2;
          threshold = eraserRadius + sw;
          ex = fst eraserPos;
          ey = snd eraserPos
      in if pointToSegmentDistance ex ey x y (x + w) y \<le> threshold then True
         else if pointToSegmentDistance ex ey x (y + h) (x + w) (y + h) \<le> threshold then True
         else if pointToSegmentDistance ex ey x y x (y + h) \<le> threshold then True
         else if pointToSegmentDistance ex ey (x + w) y (x + w) (y + h) \<le> threshold then True
         else False)"

section \<open>Drawing, hold detection and snapping\<close>

text \<open>
  The object behind a reference. Every reference the tools hold was returned by
  \<open>layer_add\<close>, so the object exists.
\<close>

definition deref :: "DrawingTools \<Rightarrow> nat \<Rightarrow> node" where
  "deref s r = the (objects s r)"

definition setTimeout :: "DrawingTools \<Rightarrow> nat \<times> DrawingTools" where
  "setTimeout s =
     (nextTimeout s,
      s\<lparr>timeouts := timeouts s @ [nextTimeout s], nextTimeout := nextTimeout s + 1\<rparr>)"

definition clearTimeout :: "nat \<Rightarrow> DrawingTools \<Rightarrow> DrawingTools" where
  "clearTimeout h s = s\<lparr>timeouts := removeAll h (timeouts s)\<rparr>"

definition startDrawing :: "point \<Rightarrow> nat \<Rightarrow> DrawingTools \<Rightarrow> DrawingTools" where
  "startDrawing pos now s =
     (let isPen = (currentTool s = Tool_pen);
          color = (if isPen then pen_color (settings s) else highlighter_color (settings s));
          thickness = (if isPen then pen_thickness (settings s) else highlighter_thickness (settings s));
          opac = (if isPen then pen_opacity (settings s) else highlighter_opacity (settings s));
          (r, s1) = layer_add ((new_node Konva_Line)
                      \<lparr>stroke := color, strokeWidth := thickness, points := [fst pos, snd pos],
                       opacity := opac, name := ''stroke''\<rparr>) s
      in s1\<lparr>currentLine := Some r, shapeStartTime := now, shapeStartPoints := [fst pos, snd pos]\<rparr>)"

definition continueDrawing :: "point \<Rightarrow> DrawingTools \<Rightarrow> DrawingTools" where
  "continueDrawing pos s =
     (case currentLine s of
        None \<Rightarrow> s
      | Some r \<Rightarrow> update_node r (\<lambda>n. n\<lparr>points := points n @ [fst pos, snd pos]\<rparr>) s)"

definition checkForShapeHold :: "point \<Rightarrow> nat \<Rightarrow> DrawingTools \<Rightarrow> DrawingTools" where
  "checkForShapeHold pos now s =
     (let moveThreshold = 5;
          s1 = (case lastMovePos s of
                  Some l \<Rightarrow>
                    let dx = fst pos - fst l;
                        dy = snd pos - snd l;
                        distance = sqrt (dx * dx + dy * dy)
                    in if distance > moveThreshold
                       then
                         let s' = s\<lparr>lastMoveTime := now\<rparr>
                         in (case shapeHoldTimer s' of
                               Some h \<Rightarrow> (clearTimeout h s')\<lparr>shapeHoldTimer := None\<rparr>
                             | None \<Rightarrow> s')
                       else s
                | None \<Rightarrow> s\<lparr>lastMoveTime := now\<rparr>);
          s2 = s1\<lparr>lastMovePos := Some pos\<rparr>
      in if shapeHoldTimer s2 = None \<and> currentLine s2 \<noteq> None
         then let (h, s3) = setTimeout s2 in s3\<lparr>shapeHoldTimer := Some h\<rparr>
         else s2)"

text \<open>
  An array read \<^verbatim>\<open>a[i]\<close> (\<^verbatim>\<open>undefined\<close> outside the array) and the idiom
  \<^verbatim>\<open>a[i] || d\<close>, which takes \<open>d\<close> for \<^verbatim>\<open>undefined\<close> and for 0.
\<close>

definition js_index :: "real list \<Rightarrow> int \<Rightarrow> real option" where
  "js_index a i = (if 0 \<le> i \<and> i < int (length a) then Some (a ! nat i) else None)"

definition js_or :: "real option \<Rightarrow> real \<Rightarrow> real" where
  "js_or v d = (case v of None \<Rightarrow> d | Some x \<Rightarrow> if x = 0 then d else x)"

definition createDetectedShape :: "DrawingTools \<Rightarrow> DrawingTools" where
  "createDetectedShape s =
     (case shapeBounds s of
        None \<Rightarrow> s
      | Some b \<Rightarrow>
       (case detectedShapeType s of
          None \<Rightarrow> s
        | Some t \<Rightarrow>
          let w = maxX b - minX b;
              h = maxY b - minY b;
              centerX = (minX b + maxX b) / 2;
              centerY = (minY b + maxY b) / 2;
              styled = (\<lambda>c. (new_node c)\<lparr>stroke := pen_color (settings s),
                                         strokeWidth := pen_thickness (settings s),
                                         name := ''stroke''\<rparr>)
          in (case t of
                circle \<Rightarrow>
                  let (r, s1) = layer_add ((styled Konva_Circle)
                                  \<lparr>attr_x := centerX, attr_y := centerY, radius := min w h / 2\<rparr>) s
                  in s1\<lparr>currentShape := Some r\<rparr>
              | oval \<Rightarrow>
                  let (r, s1) = layer_add ((styled Konva_Ellipse)
                                  \<lparr>attr_x := centerX, attr_y := centerY,
                                   radiusX := w / 2, radiusY := h / 2\<rparr>) s
                  in s1\<lparr>currentShape := Some r\<rparr>
              | rectangle \<Rightarrow>
                  let (r, s1) = layer_add ((styled Konva_Rect)
                                  \<lparr>attr_x := minX b, attr_y := minY b, width := w, height := h\<rparr>) s
                  in s1\<lparr>currentShape := Some r\<rparr>
              | triangle \<Rightarrow>
                  let (r, s1) = layer_add ((styled Konva_Line)
                                  \<lparr>points := [centerX, minY b, minX b, maxY b, maxX b, maxY b,
                                              centerX, minY b],
                                   closed := True\<rparr>) s
                  in s1\<lparr>currentShape := Some r\<rparr>
              | line \<Rightarrow>
                  let pts = (case currentLine s of None \<Rightarrow> [] | Some c \<Rightarrow> points (deref s c));
                      startX = js_or (js_index pts 0) (minX b);
                      startY = js_or (js_index pts 1) (minY b);
                      endX = js_or (js_index pts (int (length pts) - 2)) (maxX b);
                      endY = js_or (js_index pts (int (length pts) - 1)) (maxY b);
                      (r, s1) = layer_add ((styled Konva_Line)
                                  \<lparr>points := [startX, startY, endX, endY]\<rparr>) s
                  in s1\<lparr>currentShape := Some r, shapeAnchor := Some (startX, startY)\<rparr>)))"

definition triggerShapeDetection :: "DrawingTools \<Rightarrow> DrawingTools" where
  "triggerShapeDetection s =
     (case currentLine s of
        None \<Rightarrow> s
      | Some r \<Rightarrow>
          if isInShapeMode s then s
          else
            let pts = points (deref s r)
            in if length pts < 6 then s
               else
                 (case analyzeStrokeForShape pts of
                    None \<Rightarrow> s
                  | Some shapeType \<Rightarrow>
                      let xs = xs_of pts;
                          ys = ys_of pts;
                          b = \<lparr>minX = Math_min xs, minY = Math_min ys,
                               maxX = Math_max xs, maxY = Math_max ys\<rparr>;
                          s1 = s\<lparr>detectedShapeType := Some shapeType, isInShapeMode := True,
                                 shapeBounds := Some b,
                                 shapeAnchor := Some ((minX b + maxX b) / 2, (minY b + maxY b) / 2)\<rparr>;
                          s2 = (destroy r s1)\<lparr>currentLine := None\<rparr>
                      in createDetectedShape s2))"

text \<open>
  \<^verbatim>\<open>resizeShape\<close>. The casts \<^verbatim>\<open>as Konva.Circle\<close>, ... are unchecked: where the object lacks
  the setter (\<^verbatim>\<open>radius\<close>, \<^verbatim>\<open>radiusX\<close>, \<^verbatim>\<open>points\<close>) the call is a TypeError before anything
  is written, and the state stays as it is; \<^verbatim>\<open>x\<close>, \<^verbatim>\<open>y\<close>, \<^verbatim>\<open>width\<close> and \<^verbatim>\<open>height\<close> are setters
  of every node.
\<close>

definition resizeShape :: "point \<Rightarrow> DrawingTools \<Rightarrow> DrawingTools" where
  "resizeShape pos s =
     (case currentShape s of
        None \<Rightarrow> s
      | Some r \<Rightarrow>
       (case shapeAnchor s of
          None \<Rightarrow> s
        | Some anchor \<Rightarrow>
          let dx = fst pos - fst anchor;
              dy = snd pos - snd anchor
          in (case detectedShapeType s of
                None \<Rightarrow> s
              | Some circle \<Rightarrow>
                  if className (deref s r) = Konva_Circle
                  then update_node r (\<lambda>n. n\<lparr>radius := max 5 (sqrt (dx * dx + dy * dy))\<rparr>) s
                  else s
              | Some oval \<Rightarrow>
                  if className (deref s r) = Konva_Ellipse
                  then update_node r (\<lambda>n. n\<lparr>radiusX := max 5 \<bar>dx\<bar>, radiusY := max 5 \<bar>dy\<bar>\<rparr>) s
                  else s
              | Some rectangle \<Rightarrow>
                  let newX = (if dx < 0 then fst pos else fst anchor - \<bar>dx\<bar>);
                      newY = (if dy < 0 then snd pos else snd anchor - \<bar>dy\<bar>)
                  in update_node r (\<lambda>n. n\<lparr>attr_x := newX, attr_y := newY,
                                            width := \<bar>dx\<bar> * 2, height := \<bar>dy\<bar> * 2\<rparr>) s
              | Some triangle \<Rightarrow>
                  let triWidth = \<bar>dx\<bar> * 2;
                      triHeight = \<bar>dy\<bar> * 2;
                      topY = snd anchor - triHeight / 2;
                      bottomY = snd anchor + triHeight / 2;
                      leftX = fst anchor - triWidth / 2;
                      rightX = fst anchor + triWidth / 2
                  in if className (deref s r) = Konva_Line
                     then update_node r (\<lambda>n. n\<lparr>points := [fst anchor, topY, leftX, bottomY,
                                                             rightX, bottomY, fst anchor, topY]\<rparr>) s
                     else s
              | Some line \<Rightarrow>
                  if className (deref s r) = Konva_Line
                  then update_node r (\<lambda>n. n\<lparr>points := [fst anchor, snd anchor, fst pos, snd pos]\<rparr>) s
                  else s)))"

definition finishShapeMode :: "DrawingTools \<Rightarrow> DrawingTools" where
  "finishShapeMode s = s\<lparr>currentShape := None\<rparr>"

definition finishDrawing :: "DrawingTools \<Rightarrow> DrawingTools" where
  "finishDrawing s = s"

section \<open>Erasing\<close>

text \<open>
  One round of the \<^verbatim>\<open>forEach\<close> of \<^verbatim>\<open>checkEraserIntersections\<close>.
  (\<^verbatim>\<open>shape.stroke\<close> in \<^verbatim>\<open>if (shape.stroke)\<close> is the accessor itself, which is always there.)
\<close>

definition checkEraserChild :: "point \<Rightarrow> real \<Rightarrow> nat \<Rightarrow> DrawingTools \<Rightarrow> DrawingTools" where
  "checkEraserChild pos eraserRadius child s =
     (let n = deref s child
      in if name n = ''stroke'' \<and> child \<notin> set (markedForDeletion s)
         then
           let intersects =
                 (case className n of
                    Konva_Line \<Rightarrow> lineIntersectsEraser n pos eraserRadius
                  | Konva_Circle \<Rightarrow> circleIntersectsEraser n pos eraserRadius
                  | Konva_Ellipse \<Rightarrow> ellipseIntersectsEraser n pos eraserRadius
                  | Konva_Rect \<Rightarrow> rectIntersectsEraser n pos eraserRadius
                  | Konva_Text \<Rightarrow> False)
           in if intersects
              then update_node child (\<lambda>m. m\<lparr>opacity := 0.3, stroke := ''#888888''\<rparr>)
                     (s\<lparr>markedForDeletion := markedForDeletion s @ [child],
                        originalOpacities := (child, opacity n) # originalOpacities s\<rparr>)
              else s
         else s)"

definition checkEraserIntersections :: "point \<Rightarrow> DrawingTools \<Rightarrow> DrawingTools" where
  "checkEraserIntersections pos s =
     fold (checkEraserChild pos (eraser_thickness (settings s) / 2)) (layer s) s"

definition startErasing :: "point \<Rightarrow> DrawingTools \<Rightarrow> DrawingTools" where
  "startErasing pos s =
     (let s1 = s\<lparr>lastEraserPos := Some pos, markedForDeletion := [], originalOpacities := []\<rparr>;
          (r, s2) = layer_add ((new_node Konva_Line)
                      \<lparr>stroke := ''#ffffff'', strokeWidth := eraser_thickness (settings s),
                       points := [fst pos, snd pos], name := ''eraser-trail''\<rparr>) s1
      in checkEraserIntersections pos (s2\<lparr>eraserTrail := Some r\<rparr>))"

definition eraseAtPosition :: "point \<Rightarrow> DrawingTools \<Rightarrow> DrawingTools" where
  "eraseAtPosition pos s =
     (let s1 = (case eraserTrail s of
                  None \<Rightarrow> s
                | Some r \<Rightarrow> update_node r (\<lambda>n. n\<lparr>points := points n @ [fst pos, snd pos]\<rparr>) s)
      in (checkEraserIntersections pos s1)\<lparr>lastEraserPos := Some pos\<rparr>)"

definition finishErasing :: "DrawingTools \<Rightarrow> DrawingTools" where
  "finishErasing s =
     (let s1 = (case eraserTrail s of
                  None \<Rightarrow> s
                | Some r \<Rightarrow> (destroy r s)\<lparr>eraserTrail := None\<rparr>);
          s2 = fold destroy (markedForDeletion s1) s1
      in s2\<lparr>markedForDeletion := [], originalOpacities := [], lastEraserPos := None\<rparr>)"

section \<open>Text boxes\<close>

definition onContentChange :: "DrawingTools \<Rightarrow> DrawingTools" where
  "onContentChange s = s\<lparr>contentChanges := contentChanges s + 1\<rparr>"

definition createTextBox :: "point \<Rightarrow> DrawingTools \<Rightarrow> DrawingTools" where
  "createTextBox pos s =
     (let (r, s1) = layer_add ((new_node Konva_Text)\<lparr>attr_x := fst pos, attr_y := snd pos\<rparr>) s
      in onContentChange s1)"

section \<open>Lasso selection\<close>

text \<open>
  The ray casting loop of \<^verbatim>\<open>isPointInLasso\<close>:
  \<^verbatim>\<open>for (let i = 0, j = points.length - 2; i < points.length; j = i, i += 2)\<close>.
  The division is only evaluated when \<open>yi\<close> and \<open>yj\<close> lie on different sides of \<open>y\<close>,
  so its divisor is not 0.
\<close>

function lassoCrossings :: "real list \<Rightarrow> real \<Rightarrow> real \<Rightarrow> nat \<Rightarrow> nat \<Rightarrow> bool \<Rightarrow> bool" where
  "lassoCrossings pts x y i j inside =
     (if i < length pts
      then
        let xi = pts ! i;
            yi = pts ! (i + 1);
            xj = pts ! j;
            yj = pts ! (j + 1)
        in lassoCrossings pts x y (i + 2) i
             (if ((yi > y) \<noteq> (yj > y)) \<and> x < (xj - xi) * (y - yi) / (yj - yi) + xi
              then \<not> inside else inside)
      else inside)"
  by pat_completeness auto
termination
  by (relation "measure (\<lambda>(pts, x, y, i, j, inside). length pts - i)") auto

declare lassoCrossings.simps [simp del]

definition isPointInLasso :: "real \<Rightarrow> real \<Rightarrow> DrawingTools \<Rightarrow> bool" where
  "isPointInLasso x y s =
     (if length (lassoPoints s) < 6 then False
      else lassoCrossings (lassoPoints s) x y 0 (length (lassoPoints s) - 2) False)"

text \<open>
  The loop of \<^verbatim>\<open>shapeIntersectsLasso\<close> over the points of a polyline.
\<close>

fun anyPointInLasso :: "real list \<Rightarrow> DrawingTools \<Rightarrow> bool" where
  "anyPointInLasso (px # py # rest) s =
     (if isPointInLasso px py s then True else anyPointInLasso rest s)"
| "anyPointInLasso _ s = False"

definition shapeIntersectsLasso :: "node \<Rightarrow> DrawingTools \<Rightarrow> bool" where
  "shapeIntersectsLasso shape s =
     (case className shape of
        Konva_Line \<Rightarrow> anyPointInLasso (points shape) s
      | Konva_Circle \<Rightarrow>
          let cx = attr_x shape; cy = attr_y shape; r = radius shape
          in isPointInLasso cx cy s \<or> isPointInLasso (cx + r) cy s \<or> isPointInLasso (cx - r) cy s \<or>
             isPointInLasso cx (cy + r) s \<or> isPointInLasso cx (cy - r) s
      | Konva_Ellipse \<Rightarrow>
          let cx = attr_x shape; cy = attr_y shape; rx = radiusX shape; ry = radiusY shape
          in isPointInLasso cx cy s \<or> isPointInLasso (cx + rx) cy s \<or> isPointInLasso (cx - rx) cy s \<or>
             isPointInLasso cx (cy + ry) s \<or> isPointInLasso cx (cy - ry) s
      | Konva_Rect \<Rightarrow>
          let x = attr_x shape; y = attr_y shape; w = width shape; h = height shape
          in isPointInLasso x y s \<or> isPointInLasso (x + w) y s \<or> isPointInLasso x (y + h) s \<or>
             isPointInLasso (x + w) (y + h) s \<or> isPointInLasso (x + w / 2) (y + h / 2) s
      | Konva_Text \<Rightarrow>
          isPointInLasso (attr_x shape + width shape / 2) (attr_y shape + height shape / 2) s)"

definition calculateSelectionCenter :: "DrawingTools \<Rightarrow> DrawingTools" where
  "calculateSelectionCenter s =
     (if length (lassoPoints s) < 2 then s
      else
        let numPoints = real (length (lassoPoints s)) / 2
        in s\<lparr>selectionCenter := (sum_list (xs_of (lassoPoints s)) / numPoints,
                                  sum_list (ys_of (lassoPoints s)) / numPoints)\<rparr>)"

text \<open>
  \<^verbatim>\<open>startMarchingAnts\<close> requests an animation frame. The frame callback only moves the dash
  offset of the outline and requests the next frame; it is not modelled.
\<close>

definition startMarchingAnts :: "DrawingTools \<Rightarrow> DrawingTools" where
  "startMarchingAnts s =
     s\<lparr>marchingAntsAnimationId := Some (nextAnimationFrame s),
       nextAnimationFrame := nextAnimationFrame s + 1\<rparr>"

text \<open>
  \<^verbatim>\<open>shape.opacity(shape.opacity() / 0.8)\<close> in \<open>clearSelection\<close> and
  \<^verbatim>\<open>shape.opacity(shape.opacity() * 0.8)\<close> in \<open>finishSelection\<close>: the literal is the double
  nearest to \<open>4/5\<close>, and the quotient and the product are rounded.
\<close>

definition clearSelection :: "DrawingTools \<Rightarrow> DrawingTools" where
  "clearSelection s =
     (let s1 = s\<lparr>marchingAntsAnimationId := None\<rparr>;
          s2 = fold (\<lambda>shape. update_node shape
                       (\<lambda>n. n\<lparr>opacity := divide64 (opacity n) (double (4 / 5))\<rparr>))
                 (selectedShapes s1) s1;
          s3 = (case lassoPath s2 of
                  None \<Rightarrow> s2
                | Some r \<Rightarrow> (destroy r s2)\<lparr>lassoPath := None\<rparr>)
      in s3\<lparr>selectedShapes := [], lassoPoints := [], isDraggingSelection := False,
            dragStartPos := None\<rparr>)"

text \<open>
  The array \<^verbatim>\<open>this.lassoPoints\<close> is also the \<^verbatim>\<open>points\<close> of the lasso line (and later of the
  lasso path): a \<^verbatim>\<open>push\<close> on it changes both, here in two updates.
\<close>

definition startSelection :: "point \<Rightarrow> DrawingTools \<Rightarrow> DrawingTools" where
  "startSelection pos s =
     (let startLasso = (\<lambda>t.
            let (r, t1) = layer_add ((new_node Konva_Line)
                            \<lparr>points := [fst pos, snd pos], stroke := ''#888888'',
                             strokeWidth := 1.5, opacity := 0.7, name := ''lasso-drawing''\<rparr>)
                            (t\<lparr>lassoPoints := [fst pos, snd pos]\<rparr>)
            in t1\<lparr>lassoLine := Some r\<rparr>)
      in if lassoPath s \<noteq> None \<and> length (selectedShapes s) > 0
         then if isPointInLasso (fst pos) (snd pos) s
              then s\<lparr>isDraggingSelection := True, dragStartPos := Some pos\<rparr>
              else startLasso (clearSelection s)
         else startLasso s)"

definition continueSelection :: "point \<Rightarrow> DrawingTools \<Rightarrow> DrawingTools" where
  "continueSelection pos s =
     (case (if isDraggingSelection s then dragStartPos s else None) of
        Some start \<Rightarrow>
          let dx = fst pos - fst start;
              dy = snd pos - snd start;
              s1 = fold (\<lambda>shape. update_node shape
                          (\<lambda>n. n\<lparr>attr_x := attr_x n + dx, attr_y := attr_y n + dy\<rparr>))
                     (selectedShapes s) s;
              s2 = (case lassoPath s1 of
                      None \<Rightarrow> s1
                    | Some r \<Rightarrow>
                        let newPoints = concat (map (\<lambda>(px, py). [px + dx, py + dy])
                                          (zip (xs_of (points (deref s1 r))) (ys_of (points (deref s1 r)))))
                        in (update_node r (\<lambda>n. n\<lparr>points := newPoints\<rparr>) s1)\<lparr>lassoPoints := newPoints\<rparr>)
          in s2\<lparr>dragStartPos := Some pos\<rparr>
      | None \<Rightarrow>
         (case lassoLine s of
            None \<Rightarrow> s
          | Some r \<Rightarrow>
              let pts = lassoPoints s @ [fst pos, snd pos]
              in update_node r (\<lambda>n. n\<lparr>points := pts\<rparr>) (s\<lparr>lassoPoints := pts\<rparr>)))"

definition finishSelection :: "DrawingTools \<Rightarrow> DrawingTools" where
  "finishSelection s =
     (if isDraggingSelection s
      then onContentChange (s\<lparr>isDraggingSelection := False, dragStartPos := None\<rparr>)
      else
       (case (if length (lassoPoints s) < 6 then None else lassoLine s) of
          None \<Rightarrow>
            (case lassoLine s of
               None \<Rightarrow> s
             | Some r \<Rightarrow> (destroy r s)\<lparr>lassoLine := None\<rparr>)\<lparr>lassoPoints := []\<rparr>
        | Some r \<Rightarrow>
            let pts = lassoPoints s @ [lassoPoints s ! 0, lassoPoints s ! 1];
                s1 = update_node r (\<lambda>n. n\<lparr>points := pts\<rparr>) (s\<lparr>lassoPoints := pts\<rparr>);
                s2 = (destroy r s1)\<lparr>lassoLine := None\<rparr>;
                s3 = s2\<lparr>selectedShapes :=
                          filter (\<lambda>child. (name (deref s2 child) = ''stroke'' \<or>
                                            name (deref s2 child) = ''shape'') \<and>
                                           shapeIntersectsLasso (deref s2 child) s2)
                            (layer s2)\<rparr>
            in if length (selectedShapes s3) > 0
               then
                 let s4 = calculateSelectionCenter s3;
                     (p, s5) = layer_add ((new_node Konva_Line)
                                 \<lparr>points := lassoPoints s4, stroke := ''#0066ff'', strokeWidth := 2,
                                  opacity := 1, closed := True, name := ''lasso-path''\<rparr>) s4;
                     s6 = startMarchingAnts (s5\<lparr>lassoPath := Some p\<rparr>)
                 in fold (\<lambda>shape. update_node shape
                         (\<lambda>n. n\<lparr>opacity := times64 (opacity n) (double (4 / 5))\<rparr>))
                      (selectedShapes s6) s6
               else s3\<lparr>lassoPoints := []\<rparr>))"

section \<open>Pointer handlers and the hold timer\<close>

definition setTool :: "ToolType \<Rightarrow> DrawingTools \<Rightarrow> DrawingTools" where
  "setTool tool s = s\<lparr>currentTool := tool\<rparr>"

text \<open>
  \<open>now\<close> is the value of \<^verbatim>\<open>Date.now()\<close> during the call.
\<close>

definition handlePointerDown :: "Stage \<Rightarrow> nat \<Rightarrow> DrawingTools \<Rightarrow> DrawingTools" where
  "handlePointerDown stage now s =
     (if currentTool s = Tool_hand then s
      else
        let s1 = s\<lparr>isDrawing := True\<rparr>
        in (case getScaledPointerPosition stage of
              None \<Rightarrow> s1
            | Some pos \<Rightarrow>
               (case currentTool s1 of
                  Tool_pen \<Rightarrow> startDrawing pos now s1
                | Tool_highlighter \<Rightarrow> startDrawing pos now s1
                | Tool_eraser \<Rightarrow> startErasing pos s1
                | Tool_text \<Rightarrow> createTextBox pos s1
                | Tool_select \<Rightarrow> startSelection pos s1
                | Tool_hand \<Rightarrow> s1)))"

definition handlePointerMove :: "Stage \<Rightarrow> nat \<Rightarrow> DrawingTools \<Rightarrow> DrawingTools" where
  "handlePointerMove stage now s =
     (if \<not> isDrawing s \<or> currentTool s = Tool_hand then s
      else
       (case getScaledPointerPosition stage of
          None \<Rightarrow> s
        | Some pos \<Rightarrow>
           (case currentTool s of
              Tool_pen \<Rightarrow>
                if isInShapeMode s then resizeShape pos s
                else checkForShapeHold pos now (continueDrawing pos s)
            | Tool_highlighter \<Rightarrow>
                if isInShapeMode s then resizeShape pos s
                else checkForShapeHold pos now (continueDrawing pos s)
            | Tool_eraser \<Rightarrow> eraseAtPosition pos s
            | Tool_select \<Rightarrow> continueSelection pos s
            | Tool_text \<Rightarrow> s
            | Tool_hand \<Rightarrow> s)))"

definition handlePointerUp :: "Stage \<Rightarrow> DrawingTools \<Rightarrow> DrawingTools" where
  "handlePointerUp stage s =
     (if \<not> isDrawing s \<or> currentTool s = Tool_hand then s
      else
        let s1 = s\<lparr>isDrawing := False\<rparr>
        in (case getScaledPointerPosition stage of
              None \<Rightarrow> s1
            | Some pos \<Rightarrow>
                let s2 = (case shapeHoldTimer s1 of
                            None \<Rightarrow> s1
                          | Some h \<Rightarrow> (clearTimeout h s1)\<lparr>shapeHoldTimer := None\<rparr>);
                    s3 = (case currentTool s2 of
                            Tool_pen \<Rightarrow> if isInShapeMode s2 then finishShapeMode s2 else finishDrawing s2
                          | Tool_highlighter \<Rightarrow> finishDrawing s2
                          | Tool_eraser \<Rightarrow> finishErasing s2
                          | Tool_select \<Rightarrow> finishSelection s2
                          | Tool_text \<Rightarrow> s2
                          | Tool_hand \<Rightarrow> s2)
                in onContentChange
                     (s3\<lparr>currentLine := None, currentShape := None, isInShapeMode := False,
                         detectedShapeType := None, shapeAnchor := None, shapeBounds := None,
                         lastMovePos := None\<rparr>)))"

text \<open>
  The host runs the callback of an armed timeout, once: the hold timer's callback is
  \<^verbatim>\<open>() => this.triggerShapeDetection()\<close>.
\<close>

definition holdTimerFires :: "nat \<Rightarrow> DrawingTools \<Rightarrow> DrawingTools" where
  "holdTimerFires h s =
     (if h \<in> set (timeouts s)
      then triggerShapeDetection (s\<lparr>timeouts := removeAll h (timeouts s)\<rparr>)
      else s)"

datatype event =
    PointerDown Stage nat
  | PointerMove Stage nat
  | PointerUp Stage
  | HoldTimer nat

fun step :: "DrawingTools \<Rightarrow> event \<Rightarrow> DrawingTools" where
  "step s (PointerDown stage now) = handlePointerDown stage now s"
| "step s (PointerMove stage now) = handlePointerMove stage now s"
| "step s (PointerUp stage) = handlePointerUp stage s"
| "step s (HoldTimer h) = holdTimerFires h s"

definition run :: "DrawingTools \<Rightarrow> event list \<Rightarrow> DrawingTools" where
  "run s evs = foldl step s evs"

text \<open>
  A fresh \<^verbatim>\<open>DrawingTools\<close> on an empty layer, as its constructor and field initialisers
  leave it, with a tool already chosen.
\<close>

definition initial :: "ToolSettings \<Rightarrow> ToolType \<Rightarrow> DrawingTools" where
  "initial st tool =
     \<lparr>objects = Map.empty, nextRef = 0, layer = [], settings = st, currentTool = tool,
      isDrawing = False, currentLine = None, currentShape = None, shapeStartTime = 0,
      shapeStartPoints = [], contentChanges = 0, lastEraserPos = None, eraserTrail = None,
      markedForDeletion = [], originalOpacities = [], lastMovePos = None, lastMoveTime = 0,
      shapeHoldTimer = None, isInShapeMode = False, detectedShapeType = None,
      shapeAnchor = None, shapeBounds = None, lassoLine = None, lassoPoints = [],
      selectedShapes = [], isDraggingSelection = False, dragStartPos = None, lassoPath = None,
      marchingAntsAnimationId = None, selectionCenter = (0, 0), timeouts = [],
      nextTimeout = 1, nextAnimationFrame = 1\<rparr>"

section \<open>Test inputs\<close>

text \<open>
  The default tool settings of a new document (\<^verbatim>\<open>createEmptyNotaData\<close> in
  \<^verbatim>\<open>pageManager.ts\<close>, the same values as \<^verbatim>\<open>DEFAULT_SETTINGS\<close> in \<^verbatim>\<open>main.ts\<close>).
\<close>

definition defaultSettings :: ToolSettings where
  "defaultSettings =
     \<lparr>pen_color = ''#000000'', pen_thickness = 2, pen_opacity = 1,
      highlighter_color = ''#ffff00'', highlighter_thickness = 20, highlighter_opacity = 0.3,
      eraser_thickness = 20\<rparr>"

text \<open>
  An unscaled stage with the pointer at \<open>(x, y)\<close>, and one whose pointer position is
  unavailable (\<^verbatim>\<open>stage.getPointerPosition()\<close> is \<^verbatim>\<open>null\<close>).
\<close>

definition pointerAt :: "real \<Rightarrow> real \<Rightarrow> Stage" where
  "pointerAt x y = \<lparr>pointerPosition = Some (x, y), scaleX = 1\<rparr>"

definition noPointer :: Stage where
  "noPointer = \<lparr>pointerPosition = None, scaleX = 1\<rparr>"

text \<open>
  The state right after a snap to kind \<open>t\<close> of a stroke with bounds \<open>(0, 0)\<close> to
  \<open>(100, 100)\<close>: the fields as \<open>triggerShapeDetection\<close> sets them, then
  \<open>createDetectedShape\<close>. The shape is object 0.
\<close>

definition snapped :: "ShapeType \<Rightarrow> DrawingTools" where
  "snapped t =
     createDetectedShape ((initial defaultSettings Tool_pen)
       \<lparr>isDrawing := True, isInShapeMode := True, detectedShapeType := Some t,
        shapeBounds := Some \<lparr>minX = 0, minY = 0, maxX = 100, maxY = 100\<rparr>,
        shapeAnchor := Some (50, 50)\<rparr>)"

text \<open>
  A page with one pen stroke of opacity \<open>v\<close> loaded from a file (\<^verbatim>\<open>loadPage\<close> in
  \<^verbatim>\<open>pageManager.ts\<close> creates a \<^verbatim>\<open>Konva.Line\<close> named \<^verbatim>\<open>stroke\<close> with the stored opacity and
  adds it to the layer) and the select tool chosen. Background nodes are left out; the
  selection skips them by name.
\<close>

definition loadedStroke :: "real \<Rightarrow> DrawingTools" where
  "loadedStroke v =
     (initial defaultSettings Tool_select)
       \<lparr>objects := [0 \<mapsto> (new_node Konva_Line)
                          \<lparr>name := ''stroke'', points := [50, 50, 60, 60], stroke := ''#000000'',
                           strokeWidth := 2, opacity := v\<rparr>],
        nextRef := 1, layer := [0]\<rparr>"

text \<open>
  The same page while a lasso around the stroke is being drawn, before the pointer goes up:
  the lasso line is object 1.
\<close>

definition lassoAround :: "real \<Rightarrow> DrawingTools" where
  "lassoAround v =
     (initial defaultSettings Tool_select)
       \<lparr>objects := [0 \<mapsto> (new_node Konva_Line)
                          \<lparr>name := ''stroke'', points := [50, 50, 60, 60], stroke := ''#000000'',
                           strokeWidth := 2, opacity := v\<rparr>,
                      1 \<mapsto> (new_node Konva_Line)
                          \<lparr>name := ''lasso-drawing'', points := [0, 0, 100, 0, 100, 100, 0, 100],
                           stroke := ''#888888'', strokeWidth := 1.5, opacity := 0.7\<rparr>],
        nextRef := 2, layer := [0, 1], isDrawing := True, lassoLine := Some 1,
        lassoPoints := [0, 0, 100, 0, 100, 100, 0, 100]\<rparr>"

section \<open>Properties of the geometry utilities\<close>

lemma Math_atan2_negative_x_axis: "x < 0 \<Longrightarrow> Math_atan2 0 x = pi"
  by (simp add: Math_atan2_def)

lemma Math_atan2_positive_y_axis: "0 < y \<Longrightarrow> Math_atan2 y 0 = pi / 2"
  by (simp add: Math_atan2_def)

lemma Math_atan2_negative_y_axis: "y < 0 \<Longrightarrow> Math_atan2 y 0 = - (pi / 2)"
  by (simp add: Math_atan2_def)

lemma Math_atan2_range: "- pi < Math_atan2 y x \<and> Math_atan2 y x \<le> pi"
proof -
  have a: "- (pi / 2) < arctan (y / x)" "arctan (y / x) < pi / 2"
    using arctan_lbound arctan_ubound by auto
  have p: "0 < pi" by simp
  consider (right) "0 < x" | (upper_left) "x < 0" "0 \<le> y" | (lower_left) "x < 0" "y < 0"
    | (axis) "x = 0"
    by linarith
  then show ?thesis
  proof cases
    case right
    then have "Math_atan2 y x = arctan (y / x)" by (simp add: Math_atan2_def)
    with a p show ?thesis by linarith
  next
    case upper_left
    then have "y / x \<le> 0" by (simp add: divide_nonneg_neg)
    then have "arctan (y / x) \<le> 0" by (simp add: arctan_le_zero_iff)
    moreover from upper_left have "Math_atan2 y x = arctan (y / x) + pi"
      by (simp add: Math_atan2_def)
    ultimately show ?thesis using a p by linarith
  next
    case lower_left
    then have "0 < y / x" by (simp add: divide_neg_neg)
    then have "0 < arctan (y / x)" by (simp add: zero_less_arctan_iff)
    moreover from lower_left have "Math_atan2 y x = arctan (y / x) - pi"
      by (simp add: Math_atan2_def)
    ultimately show ?thesis using a p by linarith
  next
    case axis
    then have "Math_atan2 y x = pi / 2 \<or> Math_atan2 y x = - (pi / 2) \<or> Math_atan2 y x = 0"
      by (simp add: Math_atan2_def)
    with p show ?thesis by linarith
  qed
qed

text \<open>
  What does hold of \<open>getAngle\<close>: the absolute difference of two bearings lies in
  \<open>[0, 360)\<close>.
\<close>

lemma getAngle_range: "0 \<le> getAngle p1 p2 p3 \<and> getAngle p1 p2 p3 < 360"
proof -
  define a where "a = Math_atan2 (snd p1 - snd p2) (fst p1 - fst p2)"
  define b where "b = Math_atan2 (snd p3 - snd p2) (fst p3 - fst p2)"
  have "\<bar>a - b\<bar> < 2 * pi"
    using Math_atan2_range [of "snd p1 - snd p2" "fst p1 - fst p2"]
      Math_atan2_range [of "snd p3 - snd p2" "fst p3 - fst p2"]
    unfolding a_def b_def by linarith
  then have "\<bar>a - b\<bar> * (180 / pi) < 2 * pi * (180 / pi)"
    using pi_gt_zero by (simp only: mult_less_cancel_right_pos divide_pos_pos zero_less_numeral)
  then have "\<bar>a - b\<bar> * (180 / pi) < 360" by simp
  moreover have "0 \<le> \<bar>a - b\<bar> * (180 / pi)" using pi_gt_zero by simp
  ultimately show ?thesis unfolding getAngle_def Let_def a_def b_def by simp
qed

text \<open>
  C5. \<open>getAngle\<close> is meant to return the angle at the vertex, in degrees within
  \<open>[0, 180]\<close>. It returns the absolute difference of the two bearings without folding
  it back: at the right-angled corner with \<open>prev = (-1, 0)\<close>, \<open>curr = (0, 0)\<close>,
  \<open>next = (0, -1)\<close> the bearings are \<open>\<pi>\<close> and \<open>-\<pi>/2\<close> and the result is 270.
\<close>

theorem getAngle_left_corner_is_270:
  "getAngle (- 1, 0) (0, 0) (0, - 1) = 270"
  by (simp add: getAngle_def Math_atan2_negative_x_axis Math_atan2_negative_y_axis)

section \<open>Properties of the corner detector\<close>

lemma findSignificantCorners_no_scan:
  assumes "length pts < 18"
  shows "findSignificantCorners pts w h = []"
proof (cases "length pts < 12")
  case True
  then show ?thesis by (simp add: findSignificantCorners_def)
next
  case False
  from assms have d: "length pts div 40 = 0" by simp
  have "collectCandidates pts 4 8 [] = []"
    using assms by (simp add: collectCandidates.simps)
  with False d show ?thesis by (simp add: findSignificantCorners_def Let_def)
qed

text \<open>
  C6, as amended. The guard of \<open>findSignificantCorners\<close> counts array entries, not points:
  a stroke of fewer than 6 points (12 entries) is rejected by the guard, and up to 8 points
  (fewer than 18 entries) the scan has no position to look at. So every stroke of fewer
  than 9 points has no corners.
\<close>

theorem findSignificantCorners_fewer_than_9_points:
  "length pts < 18 \<Longrightarrow> findSignificantCorners pts w h = []"
  by (rule findSignificantCorners_no_scan)

text \<open>
  C6, witness: an 8-point stroke with a right-angled turn.
\<close>

theorem findSignificantCorners_fewer_than_9_points_witness:
  "length [0, 0, 1, 0, 2, 0, 3, 0, 4, 0, 4, 1, 4, 2, 4, 3 :: real] < 18
   \<and> findSignificantCorners [0, 0, 1, 0, 2, 0, 3, 0, 4, 0, 4, 1, 4, 2, 4, 3] 4 3 = []"
  using findSignificantCorners_fewer_than_9_points
          [of "[0, 0, 1, 0, 2, 0, 3, 0, 4, 0, 4, 1, 4, 2, 4, 3]" 4 3]
  by simp

lemma getAngle_right_angle: "getAngle (0, 0) (4, 0) (4, 4) = 90"
  by (simp add: getAngle_def Math_atan2_negative_x_axis Math_atan2_positive_y_axis)

lemma collectCandidates_nine_points:
  "collectCandidates [0, 0, 1, 0, 2, 0, 3, 0, 4, 0, 4, 1, 4, 2, 4, 3, 4, 4] 4 8 [] = [((4, 0), 90)]"
proof -
  let ?pts = "[0, 0, 1, 0, 2, 0, 3, 0, 4, 0, 4, 1, 4, 2, 4, 3, 4, 4] :: real list"
  have "collectCandidates ?pts 4 8 [] = collectCandidates ?pts 4 10 [((4, 0), 90)]"
    by (subst collectCandidates.simps) (simp add: getAngle_right_angle Let_def)
  also have "\<dots> = [((4, 0), 90)]"
    by (subst collectCandidates.simps) simp
  finally show ?thesis .
qed

text \<open>
  C6, counterexample to the claim as stated (fewer than 12 points): a stroke of 9 points,
  four steps to the right and four steps down, has one corner.
\<close>

theorem findSignificantCorners_nine_points_counterexample:
  "length [0, 0, 1, 0, 2, 0, 3, 0, 4, 0, 4, 1, 4, 2, 4, 3, 4, 4 :: real] div 2 < 12
   \<and> findSignificantCorners [0, 0, 1, 0, 2, 0, 3, 0, 4, 0, 4, 1, 4, 2, 4, 3, 4, 4] 4 4 = [(4, 0)]"
  using collectCandidates_nine_points
  by (simp add: findSignificantCorners_def Let_def tooClose_def)

section \<open>Properties of the shape classifier\<close>







section \<open>Properties of the erase hit test\<close>




section \<open>Properties of hold detection, snapping and resizing\<close>

lemmas eval_defs =
  run_def initial_def defaultSettings_def pointerAt_def noPointer_def
  handlePointerDown_def handlePointerMove_def handlePointerUp_def holdTimerFires_def
  getScaledPointerPosition_def startDrawing_def continueDrawing_def checkForShapeHold_def
  triggerShapeDetection_def createDetectedShape_def resizeShape_def layer_add_def
  destroy_def update_node_def deref_def setTimeout_def clearTimeout_def new_node_def
  js_or_def js_index_def analyzeStrokeForShape_def findSignificantCorners_def
  finishDrawing_def finishShapeMode_def onContentChange_def Let_def

text \<open>
  C2. With the highlighter the gesture is meant never to snap. The handlers treat pen and
  highlighter alike on a move, and \<open>triggerShapeDetection\<close> does not look at the tool: after
  pointer-down at \<open>(0, 0)\<close> and moves to \<open>(50, 0)\<close> and \<open>(100, 0)\<close> the hold timer (handle 2)
  is armed; when it fires, the highlighter stroke (object 0) is taken off the layer and
  replaced by a line shape (object 1), shape mode is on, and the next move resizes the shape
  instead of appending to the stroke.
\<close>

theorem highlighter_hold_snaps_stroke:
  "let s = run (initial defaultSettings Tool_highlighter)
             [PointerDown (pointerAt 0 0) 0, PointerMove (pointerAt 50 0) 10,
              PointerMove (pointerAt 100 0) 20];
       s' = step s (HoldTimer 2);
       s'' = step s' (PointerMove (pointerAt 120 0) 1030)
   in currentTool s'' = Tool_highlighter
      \<and> layer s = [0] \<and> currentLine s = Some 0 \<and> points (deref s 0) = [0, 0, 50, 0, 100, 0]
      \<and> \<not> isInShapeMode s \<and> timeouts s = [2]
      \<and> isInShapeMode s' \<and> detectedShapeType s' = Some line
      \<and> layer s' = [1] \<and> currentLine s' = None \<and> currentShape s' = Some 1
      \<and> className (deref s' 1) = Konva_Line \<and> points (deref s' 1) = [0, 0, 100, 0]
      \<and> points (deref s'' 0) = [0, 0, 50, 0, 100, 0] \<and> points (deref s'' 1) = [0, 0, 120, 0]"
  by (simp add: eval_defs)

text \<open>
  C3. The anchor of a snapped line is meant to be the first point of the stroke.
  \<open>triggerShapeDetection\<close> clears \<open>currentLine\<close> before it calls \<open>createDetectedShape\<close>, which
  therefore reads no points and falls back to the corner \<open>(minX, minY)\<close> of the bounds (and
  to \<open>(maxX, maxY)\<close> for the end point): for the stroke \<open>(0, 10)\<close>, \<open>(50, 0)\<close>, \<open>(100, 0)\<close>
  the anchor is \<open>(0, 0)\<close>, not \<open>(0, 10)\<close>, and the committed line runs from \<open>(0, 0)\<close> to
  \<open>(100, 10)\<close>.
\<close>

theorem line_anchor_is_bounds_corner:
  "let s = run (initial defaultSettings Tool_pen)
             [PointerDown (pointerAt 0 10) 0, PointerMove (pointerAt 50 0) 10,
              PointerMove (pointerAt 100 0) 20];
       s' = holdTimerFires 2 s
   in points (deref s 0) = [0, 10, 50, 0, 100, 0]
      \<and> detectedShapeType s' = Some line
      \<and> shapeAnchor s' = Some (0, 0)
      \<and> points (deref s' 1) = [0, 0, 100, 10]"
  by (simp add: eval_defs)

text \<open>
  In general: when the hold timer snaps a stroke, the anchor of a line is the corner
  \<open>(minX, minY)\<close> of the bounds, and the anchor of every other kind is their centre.
\<close>

lemma triggerShapeDetection_anchor:
  assumes "currentLine s = Some r" and "\<not> isInShapeMode s" and "6 \<le> length (points (deref s r))"
    and "analyzeStrokeForShape (points (deref s r)) = Some t"
  shows "shapeAnchor (triggerShapeDetection s) =
           (let xs = xs_of (points (deref s r)); ys = ys_of (points (deref s r))
            in if t = line then Some (Math_min xs, Math_min ys)
               else Some ((Math_min xs + Math_max xs) / 2, (Math_min ys + Math_max ys) / 2))"
  using assms
  by (cases t)
    (simp_all add: triggerShapeDetection_def createDetectedShape_def destroy_def layer_add_def
      js_or_def js_index_def Let_def)

text \<open>
  C7. A pointer-up is meant to cancel the hold timer and clear the hold state in every
  case. When the pointer position is unavailable \<open>handlePointerUp\<close> returns right after
  \<open>isDrawing := False\<close>: the timer (handle 2) stays armed, and \<open>currentLine\<close>,
  \<open>lastMovePos\<close> and the timer field keep their values. The timer then fires after the
  gesture has ended and snaps the stroke.
\<close>

theorem handlePointerUp_without_position_keeps_hold_state:
  "let s = run (initial defaultSettings Tool_pen)
             [PointerDown (pointerAt 0 0) 0, PointerMove (pointerAt 50 0) 10,
              PointerMove (pointerAt 100 0) 20];
       s' = handlePointerUp noPointer s;
       s'' = holdTimerFires 2 s'
   in shapeHoldTimer s = Some 2 \<and> timeouts s = [2]
      \<and> \<not> isDrawing s'
      \<and> shapeHoldTimer s' = Some 2 \<and> timeouts s' = [2] \<and> currentLine s' = Some 0
      \<and> lastMovePos s' = Some (100, 0) \<and> contentChanges s' = 0
      \<and> isInShapeMode s'' \<and> detectedShapeType s'' = Some line \<and> layer s'' = [1]"
  by (simp add: eval_defs)

text \<open>
  C7, witness: the pointer-up above is not one that the handler ignores. The gesture is
  in progress (\<open>isDrawing\<close>), the tool is the pen, and the stage has no pointer position.
\<close>

theorem handlePointerUp_without_position_witness:
  "isDrawing (run (initial defaultSettings Tool_pen)
       [PointerDown (pointerAt 0 0) 0, PointerMove (pointerAt 50 0) 10,
        PointerMove (pointerAt 100 0) 20])
   \<and> currentTool (run (initial defaultSettings Tool_pen)
       [PointerDown (pointerAt 0 0) 0, PointerMove (pointerAt 50 0) 10,
        PointerMove (pointerAt 100 0) 20]) = Tool_pen
   \<and> getScaledPointerPosition noPointer = None
   \<and> shapeHoldTimer (handlePointerUp noPointer (run (initial defaultSettings Tool_pen)
       [PointerDown (pointerAt 0 0) 0, PointerMove (pointerAt 50 0) 10,
        PointerMove (pointerAt 100 0) 20])) = Some 2"
  using handlePointerUp_without_position_keeps_hold_state
  by (simp add: eval_defs)

text \<open>
  What the state left behind does to the next gesture: shape mode is still on, so after the
  next pointer-down at \<open>(0, 50)\<close> the move to \<open>(10, 50)\<close> resizes the old shape (object 1)
  and the new stroke (object 2) stays at its first point.
\<close>

lemma stale_hold_state_breaks_next_gesture:
  "let s = run (initial defaultSettings Tool_pen)
             [PointerDown (pointerAt 0 0) 0, PointerMove (pointerAt 50 0) 10,
              PointerMove (pointerAt 100 0) 20, PointerUp noPointer, HoldTimer 2,
              PointerDown (pointerAt 0 50) 2000, PointerMove (pointerAt 10 50) 2010]
   in layer s = [1, 2] \<and> points (deref s 1) = [0, 0, 10, 50] \<and> points (deref s 2) = [0, 50]"
  by (simp add: eval_defs)

text \<open>
  With a pointer position the same pointer-up does all of it, for pen and highlighter.
\<close>

lemma handlePointerUp_with_position_clears:
  assumes "isDrawing s" and "currentTool s = Tool_pen \<or> currentTool s = Tool_highlighter"
    and "pointerPosition stage = Some p"
  shows "shapeHoldTimer (handlePointerUp stage s) = None
       \<and> (\<forall>h. shapeHoldTimer s = Some h \<longrightarrow> h \<notin> set (timeouts (handlePointerUp stage s)))
       \<and> currentLine (handlePointerUp stage s) = None
       \<and> currentShape (handlePointerUp stage s) = None
       \<and> \<not> isInShapeMode (handlePointerUp stage s)
       \<and> detectedShapeType (handlePointerUp stage s) = None
       \<and> shapeAnchor (handlePointerUp stage s) = None
       \<and> shapeBounds (handlePointerUp stage s) = None
       \<and> lastMovePos (handlePointerUp stage s) = None"
  using assms
  by (auto simp: handlePointerUp_def getScaledPointerPosition_def clearTimeout_def
      finishShapeMode_def finishDrawing_def onContentChange_def Let_def split: option.splits)

lemma triggerShapeDetection_returns_early:
  "currentLine s = None \<or> isInShapeMode s \<Longrightarrow> triggerShapeDetection s = s"
  by (auto simp: triggerShapeDetection_def split: option.splits)



text \<open>
  Two consequences. A second firing after a snap changes nothing, and neither does a
  firing after a pointer-up that found a pointer position (which clears \<open>currentLine\<close>).
\<close>

lemma createDetectedShape_currentLine: "currentLine (createDetectedShape s) = currentLine s"
  by (simp add: createDetectedShape_def layer_add_def Let_def
      split: option.splits ShapeType.splits prod.splits)

lemma triggerShapeDetection_snap_or_same:
  "triggerShapeDetection s = s \<or> currentLine (triggerShapeDetection s) = None"
  by (simp add: triggerShapeDetection_def createDetectedShape_currentLine destroy_def Let_def
      split: option.splits)

lemma triggerShapeDetection_idempotent:
  "triggerShapeDetection (triggerShapeDetection s) = triggerShapeDetection s"
  using triggerShapeDetection_snap_or_same [of s]
    triggerShapeDetection_returns_early [of "triggerShapeDetection s"]
  by auto

lemma triggerShapeDetection_after_pointer_up:
  assumes "isDrawing s" and "currentTool s = Tool_pen \<or> currentTool s = Tool_highlighter"
    and "pointerPosition stage = Some p"
  shows "triggerShapeDetection (handlePointerUp stage s) = handlePointerUp stage s"
  using handlePointerUp_with_position_clears [OF assms]
  by (simp add: triggerShapeDetection_returns_early)

section \<open>Properties of the live resize\<close>

text \<open>
  C4, as amended. After \<open>resizeShape\<close> the radius of a circle and both radii of an oval
  are at least 5, for every anchor and every pointer position. (The shape object is of the
  class that \<open>createDetectedShape\<close> constructs for the kind.)
\<close>

theorem resizeShape_round_shapes_at_least_5:
  assumes "currentShape s = Some r" and "shapeAnchor s = Some a" and "objects s r = Some n"
  shows "(detectedShapeType s = Some circle \<and> className n = Konva_Circle \<longrightarrow>
            5 \<le> radius (deref (resizeShape pos s) r))
       \<and> (detectedShapeType s = Some oval \<and> className n = Konva_Ellipse \<longrightarrow>
            5 \<le> radiusX (deref (resizeShape pos s) r) \<and> 5 \<le> radiusY (deref (resizeShape pos s) r))"
  using assms by (simp add: resizeShape_def deref_def update_node_def Let_def)

lemma snapped_fields:
  "currentShape (snapped t) = Some 0"
  "detectedShapeType (snapped t) = Some t"
  "shapeAnchor (snapped t) = Some (if t = line then (0, 0) else (50, 50))"
  "objects (snapped t) 0 \<noteq> None"
  "className (the (objects (snapped t) 0)) =
     (case t of circle \<Rightarrow> Konva_Circle | oval \<Rightarrow> Konva_Ellipse | rectangle \<Rightarrow> Konva_Rect
              | triangle \<Rightarrow> Konva_Line | line \<Rightarrow> Konva_Line)"
  by (cases t; simp add: snapped_def eval_defs)+

text \<open>
  C4, witness: a circle and an oval after their snap, resized with the pointer at
  \<open>(51, 52)\<close>, next to the anchor \<open>(50, 50)\<close>.
\<close>

theorem resizeShape_round_shapes_at_least_5_witness:
  "currentShape (snapped circle) = Some 0 \<and> shapeAnchor (snapped circle) = Some (50, 50)
   \<and> detectedShapeType (snapped circle) = Some circle
   \<and> className (deref (snapped circle) 0) = Konva_Circle
   \<and> 5 \<le> radius (deref (resizeShape (51, 52) (snapped circle)) 0)
   \<and> currentShape (snapped oval) = Some 0 \<and> shapeAnchor (snapped oval) = Some (50, 50)
   \<and> detectedShapeType (snapped oval) = Some oval
   \<and> className (deref (snapped oval) 0) = Konva_Ellipse
   \<and> 5 \<le> radiusX (deref (resizeShape (51, 52) (snapped oval)) 0)
   \<and> 5 \<le> radiusY (deref (resizeShape (51, 52) (snapped oval)) 0)"
proof -
  have o: "\<And>t. objects (snapped t) 0 = Some (the (objects (snapped t) 0))"
    using snapped_fields(4) by simp
  have a: "\<And>t. shapeAnchor (snapped t) = Some (if t = line then (0, 0) else (50, 50))"
    by (rule snapped_fields(3))
  note i = resizeShape_round_shapes_at_least_5 [OF snapped_fields(1) a o, of _ "(51, 52)"]
  show ?thesis
    using i [of circle] i [of oval]
    by (simp add: snapped_fields deref_def)
qed

text \<open>
  The other kinds are not floored: a rectangle gets width \<open>2 * |dx|\<close> and height
  \<open>2 * |dy|\<close>, a triangle the corners of the box of that size around the anchor, and a line
  runs from the anchor to the pointer.
\<close>

lemma resizeShape_other_kinds:
  assumes "currentShape s = Some r" and "shapeAnchor s = Some a" and "objects s r = Some n"
  shows "(detectedShapeType s = Some rectangle \<longrightarrow>
            width (deref (resizeShape pos s) r) = 2 * \<bar>fst pos - fst a\<bar> \<and>
            height (deref (resizeShape pos s) r) = 2 * \<bar>snd pos - snd a\<bar>)
       \<and> (detectedShapeType s = Some triangle \<and> className n = Konva_Line \<longrightarrow>
            points (deref (resizeShape pos s) r) =
              [fst a, snd a - \<bar>snd pos - snd a\<bar>,
               fst a - \<bar>fst pos - fst a\<bar>, snd a + \<bar>snd pos - snd a\<bar>,
               fst a + \<bar>fst pos - fst a\<bar>, snd a + \<bar>snd pos - snd a\<bar>,
               fst a, snd a - \<bar>snd pos - snd a\<bar>])
       \<and> (detectedShapeType s = Some line \<and> className n = Konva_Line \<longrightarrow>
            points (deref (resizeShape pos s) r) = [fst a, snd a, fst pos, snd pos])"
  using assms by (simp add: resizeShape_def deref_def update_node_def Let_def)

text \<open>
  C4, counterexample to the claim as stated: with the pointer on the anchor the resized
  rectangle has width and height 0, the triangle collapses to the anchor, and the line has
  length 0.
\<close>

theorem resizeShape_no_floor_counterexample:
  "width (deref (resizeShape (50, 50) (snapped rectangle)) 0) = 0
   \<and> height (deref (resizeShape (50, 50) (snapped rectangle)) 0) = 0
   \<and> points (deref (resizeShape (50, 50) (snapped triangle)) 0) = [50, 50, 50, 50, 50, 50, 50, 50]
   \<and> points (deref (resizeShape (0, 0) (snapped line)) 0) = [0, 0, 0, 0]"
  by (simp add: snapped_def eval_defs)

section \<open>Properties of the lasso selection\<close>

subsection \<open>Rounding\<close>

lemma double_binade:
  assumes "2 powr of_int e \<le> \<bar>x\<bar>" and "\<bar>x\<bar> < 2 powr (of_int e + 1)"
  shows "double x = 2 powr (of_int e - 52) * of_int (roundTiesToEven (x / 2 powr (of_int e - 52)))"
proof -
  have "0 < 2 powr real_of_int e" by simp
  with assms(1) have pos: "0 < \<bar>x\<bar>" by linarith
  then have "x \<noteq> 0" by auto
  moreover have "\<lfloor>log 2 \<bar>x\<bar>\<rfloor> = e"
    using assms pos by (simp add: floor_log_eq_powr_iff)
  ultimately show ?thesis by (simp add: double_def Let_def)
qed

text \<open>
  Below 2 the unit in the last place is a negative power of two: for
  \<open>1 / 2\<^sup>k \<le> |x| < 2 / 2\<^sup>k\<close> the double nearest to \<open>x\<close> is a multiple of \<open>1 / 2\<^sup>k\<^sup>+\<^sup>5\<^sup>2\<close>.
\<close>

lemma double_below_two:
  assumes "1 / 2 ^ k \<le> \<bar>x\<bar>" and "\<bar>x\<bar> < 2 / 2 ^ k"
  shows "double x = of_int (roundTiesToEven (x * 2 ^ (k + 52))) / 2 ^ (k + 52)"
proof -
  have p: "2 powr (- real k) = 1 / 2 ^ k"
    by (simp add: powr_minus powr_realpow divide_inverse)
  have q: "2 powr (- real k - 52) = 1 / 2 ^ (k + 52)"
  proof -
    have "- real k - 52 = - real (k + 52)" by simp
    then have "2 powr (- real k - 52) = 2 powr (- real (k + 52))" by simp
    also have "\<dots> = 1 / 2 ^ (k + 52)"
      by (simp only: powr_minus powr_realpow zero_less_numeral divide_inverse mult_1)
    finally show ?thesis .
  qed
  have "2 powr (- real k + 1) = 2 powr (- real k) * 2 powr 1" by (rule powr_add)
  then have r: "2 powr (- real k + 1) = 2 / 2 ^ k"
    by (simp only: p powr_one zero_le_numeral)
  have "double x = 2 powr (of_int (- int k) - 52)
          * of_int (roundTiesToEven (x / 2 powr (of_int (- int k) - 52)))"
    by (rule double_binade) (use assms p r in simp_all)
  then show ?thesis using q by simp
qed

text \<open>
  The doubles of the literals \<^verbatim>\<open>0.8\<close> and \<^verbatim>\<open>0.3\<close>.
\<close>

lemma double_4_5: "double (4 / 5) = 7205759403792794 / 2 ^ 53"
  using double_below_two [of 1 "4 / 5"]
  by (simp add: roundTiesToEven_def Let_def)

lemma double_3_10: "double (3 / 10) = 5404319552844595 / 2 ^ 54"
  using double_below_two [of 2 "3 / 10"]
  by (simp add: roundTiesToEven_def Let_def)

text \<open>
  \<^verbatim>\<open>0.8 * 0.8\<close> is \<^verbatim>\<open>0.6400000000000001\<close>, and \<^verbatim>\<open>0.6400000000000001 / 0.8\<close> is
  \<^verbatim>\<open>0.8000000000000002\<close>, one unit in the last place above \<^verbatim>\<open>0.8\<close>.
\<close>

lemma dimmed_4_5: "times64 (double (4 / 5)) (double (4 / 5)) = 5764607523034236 / 2 ^ 53"
  unfolding times64_def double_4_5
  using double_below_two [of 1 "7205759403792794 / 2 ^ 53 * (7205759403792794 / 2 ^ 53)"]
  by (simp add: roundTiesToEven_def Let_def)

lemma restored_4_5:
  "divide64 (times64 (double (4 / 5)) (double (4 / 5))) (double (4 / 5)) = 7205759403792795 / 2 ^ 53"
  unfolding dimmed_4_5 unfolding divide64_def double_4_5
  using double_below_two [of 1 "5764607523034236 / 2 ^ 53 / (7205759403792794 / 2 ^ 53)"]
  by (simp add: roundTiesToEven_def Let_def)

text \<open>
  The default opacities do survive the round trip: 1 (pen) and \<^verbatim>\<open>0.3\<close> (highlighter).
\<close>

lemma dimmed_1: "times64 1 (double (4 / 5)) = 7205759403792794 / 2 ^ 53"
  unfolding times64_def double_4_5
  using double_below_two [of 1 "1 * (7205759403792794 / 2 ^ 53)"]
  by (simp add: roundTiesToEven_def Let_def)

lemma restored_1: "divide64 (times64 1 (double (4 / 5))) (double (4 / 5)) = 1"
  unfolding dimmed_1 unfolding divide64_def double_4_5
  using double_below_two [of 0 "7205759403792794 / 2 ^ 53 / (7205759403792794 / 2 ^ 53)"]
  by (simp add: roundTiesToEven_def Let_def)

lemma dimmed_3_10: "times64 (double (3 / 10)) (double (4 / 5)) = 8646911284551352 / 2 ^ 55"
  unfolding times64_def double_4_5 double_3_10
  using double_below_two [of 3 "5404319552844595 / 2 ^ 54 * (7205759403792794 / 2 ^ 53)"]
  by (simp add: roundTiesToEven_def Let_def)

lemma restored_3_10:
  "divide64 (times64 (double (3 / 10)) (double (4 / 5))) (double (4 / 5)) = double (3 / 10)"
  unfolding dimmed_3_10 unfolding divide64_def double_4_5 double_3_10
  using double_below_two [of 2 "8646911284551352 / 2 ^ 55 / (7205759403792794 / 2 ^ 53)"]
  by (simp add: roundTiesToEven_def Let_def)

subsection \<open>Selecting and clearing\<close>

lemma run_snoc: "run s (evs @ [e]) = step (run s evs) e"
  by (simp add: run_def)

lemma lassoAround_reached:
  "run (loadedStroke v)
     [PointerDown (pointerAt 0 0) 0, PointerMove (pointerAt 100 0) 10,
      PointerMove (pointerAt 100 100) 20, PointerMove (pointerAt 0 100) 30] = lassoAround v"
  by (simp add: loadedStroke_def lassoAround_def run_def initial_def defaultSettings_def pointerAt_def
      handlePointerDown_def handlePointerMove_def getScaledPointerPosition_def startSelection_def
      continueSelection_def layer_add_def update_node_def new_node_def Let_def)

lemma lasso_inside_square:
  "lassoPoints s = [0, 0, 100, 0, 100, 100, 0, 100, 0, 0] \<Longrightarrow> isPointInLasso 50 50 s"
  by (simp add: isPointInLasso_def lassoCrossings.simps)

lemma lasso_outside_square:
  "lassoPoints s = [0, 0, 100, 0, 100, 100, 0, 100, 0, 0] \<Longrightarrow> \<not> isPointInLasso 200 200 s"
  by (simp add: isPointInLasso_def lassoCrossings.simps)

lemma stroke_in_square:
  "lassoPoints s = [0, 0, 100, 0, 100, 100, 0, 100, 0, 0] \<Longrightarrow> className n = Konva_Line \<Longrightarrow>
   points n = [50, 50, 60, 60] \<Longrightarrow> shapeIntersectsLasso n s"
  by (simp add: shapeIntersectsLasso_def lasso_inside_square)

lemmas lasso_eval_defs =
  lassoAround_def initial_def defaultSettings_def pointerAt_def new_node_def
  handlePointerUp_def handlePointerDown_def getScaledPointerPosition_def
  startSelection_def finishSelection_def clearSelection_def calculateSelectionCenter_def
  startMarchingAnts_def onContentChange_def layer_add_def destroy_def update_node_def deref_def
  Let_def stroke_in_square lasso_outside_square

text \<open>
  Pointer-up closes the lasso, selects the stroke and dims it; a pointer-down outside the
  lasso clears the selection and divides the opacity again. This holds for every opacity
  \<open>v\<close> of the stroke.
\<close>

lemma lasso_pointer_up:
  "selectedShapes (handlePointerUp (pointerAt 0 100) (lassoAround v)) = [0]
   \<and> lassoPath (handlePointerUp (pointerAt 0 100) (lassoAround v)) = Some 2
   \<and> opacity (deref (handlePointerUp (pointerAt 0 100) (lassoAround v)) 0)
       = times64 v (double (4 / 5))"
  by (simp add: lasso_eval_defs)

lemma lasso_click_outside:
  "selectedShapes (handlePointerDown (pointerAt 200 200) 40
       (handlePointerUp (pointerAt 0 100) (lassoAround v))) = []
   \<and> opacity (deref (handlePointerDown (pointerAt 200 200) 40
       (handlePointerUp (pointerAt 0 100) (lassoAround v))) 0)
       = divide64 (times64 v (double (4 / 5))) (double (4 / 5))"
  by (simp add: lasso_eval_defs)

text \<open>
  C9. Selecting a shape with the lasso and clearing the selection is meant to restore the
  opacity exactly. The code multiplies by \<^verbatim>\<open>0.8\<close> and later divides by \<^verbatim>\<open>0.8\<close>, each
  rounded: a stroke of opacity \<^verbatim>\<open>0.8\<close> (\<open>7205759403792794 / 2\<^sup>5\<^sup>3\<close>) is dimmed to
  \<^verbatim>\<open>0.6400000000000001\<close> when the lasso drawn around it is finished, and after the click
  outside the lasso its opacity is \<^verbatim>\<open>0.8000000000000002\<close> (\<open>7205759403792795 / 2\<^sup>5\<^sup>3\<close>).
\<close>

theorem lasso_select_then_clear_changes_opacity:
  "let s0 = loadedStroke (double (4 / 5));
       s1 = run s0 [PointerDown (pointerAt 0 0) 0, PointerMove (pointerAt 100 0) 10,
                    PointerMove (pointerAt 100 100) 20, PointerMove (pointerAt 0 100) 30,
                    PointerUp (pointerAt 0 100)];
       s2 = step s1 (PointerDown (pointerAt 200 200) 40)
   in opacity (deref s0 0) = 7205759403792794 / 2 ^ 53
      \<and> selectedShapes s1 = [0]
      \<and> opacity (deref s1 0) = 5764607523034236 / 2 ^ 53
      \<and> selectedShapes s2 = []
      \<and> opacity (deref s2 0) = 7205759403792795 / 2 ^ 53"
proof -
  let ?v = "double (4 / 5)"
  let ?draw = "[PointerDown (pointerAt 0 0) 0, PointerMove (pointerAt 100 0) 10,
                PointerMove (pointerAt 100 100) 20, PointerMove (pointerAt 0 100) 30]"
  let ?s1 = "handlePointerUp (pointerAt 0 100) (lassoAround ?v)"
  let ?s2 = "handlePointerDown (pointerAt 200 200) 40 ?s1"
  have "run (loadedStroke ?v) (?draw @ [PointerUp (pointerAt 0 100)]) = ?s1"
    by (simp only: run_snoc lassoAround_reached step.simps)
  then have r: "run (loadedStroke ?v)
                  [PointerDown (pointerAt 0 0) 0, PointerMove (pointerAt 100 0) 10,
                   PointerMove (pointerAt 100 100) 20, PointerMove (pointerAt 0 100) 30,
                   PointerUp (pointerAt 0 100)] = ?s1"
    by simp
  have "opacity (deref (loadedStroke ?v) 0) = ?v"
    by (simp add: loadedStroke_def deref_def)
  then have a: "opacity (deref (loadedStroke ?v) 0) = 7205759403792794 / 2 ^ 53"
    by (simp only: double_4_5)
  have b: "opacity (deref ?s1 0) = 5764607523034236 / 2 ^ 53"
    by (simp only: lasso_pointer_up dimmed_4_5)
  have c: "opacity (deref ?s2 0) = 7205759403792795 / 2 ^ 53"
    by (simp only: lasso_click_outside restored_4_5)
  have d: "selectedShapes ?s1 = [0]" "selectedShapes ?s2 = []"
    using lasso_pointer_up [of ?v] lasso_click_outside [of ?v] by blast+
  show ?thesis
    unfolding Let_def r step.simps using a b c d by blast
qed

end
